theory Spec2Isabelle
  imports Complex_Main
begin

section \<open>The wallet analyzer: data model\<close>

text \<open>
  The analyzer (\<^verbatim>\<open>get_related_wallets.js\<close>) reads parsed transactions
  from an RPC client, classifies each with \<^verbatim>\<open>determineTransactionType\<close>
  and tallies the counterparties in a \<^verbatim>\<open>Map\<close>.

  A JavaScript object is a record here; a property that may be missing
  (\<^verbatim>\<open>undefined\<close> or \<^verbatim>\<open>null\<close>) is an \<open>option\<close>. A
  property that is present has the type the RPC client declares for it: a
  program id is rendered by \<^verbatim>\<open>toString()\<close> as its base-58 string and is
  that string here, lamports are a natural number, log lines are strings of
  one-byte characters. A \<^verbatim>\<open>TypeError\<close> of the JavaScript run time is the
  value \<open>Inl TypeError\<close>.
\<close>

datatype js_error = TypeError

record parsed_info =
  source :: "string option"
  destination :: "string option"
  lamports :: "nat option"

record parsed_data =
  ptype :: "string option"
  info :: "parsed_info option"

record instruction =
  programId :: "string option"
  program :: "string option"
  parsed :: "parsed_data option"

record inner_group =
  group_index :: nat
  group_instructions :: "instruction list option"

record token_balance =
  accountIndex :: nat
  mint :: string

record tx_meta =
  preTokenBalances :: "token_balance list option"
  postTokenBalances :: "token_balance list option"
  logMessages :: "string list option"
  innerInstructions :: "inner_group list option"

record tx_message =
  instructions :: "instruction list option"

record tx_body =
  message :: "tx_message option"

record parsed_tx =
  transaction :: "tx_body option"
  meta :: "tx_meta option"

datatype tx_type = Unknown | Transfer | TokenTransfer | Swap

record related_address =
  address :: string
  direction :: string

text \<open>
  \<open>details\<close> of a result is the empty object (\<open>None\<close>) or the object
  \<^verbatim>\<open>{source, destination, amount}\<close>; an \<open>amount\<close> of \<open>None\<close> is
  \<^verbatim>\<open>null\<close>. The quotient \<^verbatim>\<open>amount / 1e9\<close> is the exact quotient
  of real numbers here: the rounding of the run time's doubles is not modelled.
\<close>

record transfer_details =
  details_source :: "string option"
  details_destination :: "string option"
  amount :: "real option"

record result =
  rtype :: tx_type
  relatedAddresses :: "related_address list"
  details :: "transfer_details option"

section \<open>The classifier\<close>

definition default_result :: result where
  "default_result = \<lparr>rtype = Unknown, relatedAddresses = [], details = None\<rparr>"

definition knownSwapPrograms :: "string list" where
  "knownSwapPrograms =
     [''JUP6LkbZbjS1jKKwapdHNy74zcZ3tLUZoi5QNyVTaV4'',
      ''SwaPpA9LAaLfeLi3a68M4DjnLqgtticKg6CnyNwgAC8'',
      ''9W959DqEETiGZocYWCQPaJ6sBmUzgfxXfqGeTEdp3aQP'',
      ''CPMMoo8L3F4NbTegBCKVNunggL7H1ZpdTHKxQB5qKP1C'',
      ''6EF8rrecthR5Dkzon8Nwu78hRvfCKubJ14M5uBEwF6P'']"

definition SYSTEM_PROGRAM :: string where
  "SYSTEM_PROGRAM = ''11111111111111111111111111111111''"

definition TOKEN_PROGRAM :: string where
  "TOKEN_PROGRAM = ''TokenkegQfeZyiNwAJbNbGKPFXCWuBvf9Ss623VQ5DA''"

definition COMPUTE_BUDGET_PROGRAM :: string where
  "COMPUTE_BUDGET_PROGRAM = ''ComputeBudget111111111111111111111111111111''"

text \<open>\<^verbatim>\<open>ix.parsed?.type\<close>: missing when \<open>parsed\<close> is.\<close>

definition parsed_type :: "instruction \<Rightarrow> string option" where
  "parsed_type ix = (case parsed ix of None \<Rightarrow> None | Some p \<Rightarrow> ptype p)"

text \<open>\<^verbatim>\<open>ix.parsed?.info\<close>, and a field of it through \<^verbatim>\<open>?.\<close>.\<close>

definition parsed_info_of :: "instruction \<Rightarrow> parsed_info option" where
  "parsed_info_of ix = (case parsed ix of None \<Rightarrow> None | Some p \<Rightarrow> info p)"

definition info_field :: "(parsed_info \<Rightarrow> 'a option) \<Rightarrow> instruction \<Rightarrow> 'a option" where
  "info_field f ix = (case parsed_info_of ix of None \<Rightarrow> None | Some i \<Rightarrow> f i)"

text \<open>\<^verbatim>\<open>xs?.length > 0\<close>: false when the list is missing.\<close>

definition nonempty_opt :: "'a list option \<Rightarrow> bool" where
  "nonempty_opt xs = (case xs of None \<Rightarrow> False | Some ys \<Rightarrow> 0 < length ys)"

definition hasTokenBalanceChanges :: "tx_meta option \<Rightarrow> bool" where
  "hasTokenBalanceChanges m =
     (case m of None \<Rightarrow> False
      | Some mm \<Rightarrow> nonempty_opt (preTokenBalances mm) \<or> nonempty_opt (postTokenBalances mm))"

definition is_compute_budget :: "instruction \<Rightarrow> bool" where
  "is_compute_budget ix = (programId ix = Some COMPUTE_BUDGET_PROGRAM)"

definition is_advance_nonce :: "instruction \<Rightarrow> bool" where
  "is_advance_nonce ix =
     (programId ix = Some SYSTEM_PROGRAM \<and> parsed_type ix = Some ''advanceNonce'')"

definition is_system_transfer :: "instruction \<Rightarrow> bool" where
  "is_system_transfer ix =
     (programId ix = Some SYSTEM_PROGRAM \<and> parsed_type ix = Some ''transfer'')"

definition is_token_transfer :: "instruction \<Rightarrow> bool" where
  "is_token_transfer ix =
     (programId ix = Some TOKEN_PROGRAM \<and>
      (parsed_type ix = Some ''transfer'' \<or> parsed_type ix = Some ''transferChecked''))"

text \<open>\<^verbatim>\<open>knownSwapPrograms.includes(ix.programId?.toString())\<close>.\<close>

definition is_swap_program :: "instruction \<Rightarrow> bool" where
  "is_swap_program ix =
     (case programId ix of None \<Rightarrow> False | Some p \<Rightarrow> List.member knownSwapPrograms p)"

text \<open>The condition of the first \<^verbatim>\<open>if\<close> (lines 50 to 54).\<close>

definition simple_shape :: "instruction list \<Rightarrow> bool" where
  "simple_shape ixs =
     (length ixs = 1 \<or>
      (length ixs \<le> 4 \<and> (list_ex is_compute_budget ixs \<or> list_ex is_advance_nonce ixs)))"

text \<open>\<^verbatim>\<open>amount ? amount / 1e9 : null\<close>: a number is truthy when it is
  present and not zero.\<close>

definition sol_amount :: "nat option \<Rightarrow> real option" where
  "sol_amount a =
     (case a of None \<Rightarrow> None
      | Some n \<Rightarrow> if n \<noteq> 0 then Some (real n / 1000000000) else None)"

text \<open>Lines 76 to 91: the counterparty pushed to \<open>relatedAddresses\<close>. A
  string is truthy when it is present and not empty.\<close>

definition counterparty :: "string option \<Rightarrow> string option \<Rightarrow> string \<Rightarrow> related_address list" where
  "counterparty src dst sourceAddress =
     (case src of
        None \<Rightarrow> []
      | Some s \<Rightarrow>
          (case dst of
             None \<Rightarrow> []
           | Some d \<Rightarrow>
               if s \<noteq> [] \<and> d \<noteq> [] then
                 (if s = sourceAddress then [\<lparr>address = d, direction = ''sent''\<rparr>]
                  else if d = sourceAddress then [\<lparr>address = s, direction = ''received''\<rparr>]
                  else [])
               else []))"

text \<open>Lines 61 to 93: the result built from the transfer instruction found.\<close>

definition transfer_result :: "instruction \<Rightarrow> string \<Rightarrow> result" where
  "transfer_result transferIx sourceAddress =
     (let src = info_field source transferIx;
          dst = info_field destination transferIx;
          amt = info_field lamports transferIx
      in \<lparr>rtype = Transfer,
          relatedAddresses = counterparty src dst sourceAddress,
          details = Some \<lparr>details_source = src, details_destination = dst,
                          amount = sol_amount amt\<rparr>\<rparr>)"

text \<open>Lines 50 to 95: \<open>Some\<close> result when the block returns, \<open>None\<close> when
  control falls through to the later checks.\<close>

definition native_transfer :: "tx_meta option \<Rightarrow> instruction list \<Rightarrow> string \<Rightarrow> result option" where
  "native_transfer m ixs sourceAddress =
     (if simple_shape ixs then
        (case find is_system_transfer ixs of
           None \<Rightarrow> None
         | Some transferIx \<Rightarrow>
             if hasTokenBalanceChanges m then None
             else Some (transfer_result transferIx sourceAddress))
      else None)"

text \<open>\<^verbatim>\<open>Array.prototype.join\<close>, \<^verbatim>\<open>toLowerCase\<close> (on the letters A to Z)
  and \<^verbatim>\<open>String.prototype.includes\<close>.\<close>

fun join :: "string list \<Rightarrow> string \<Rightarrow> string" where
  "join [] sep = []"
| "join [x] sep = x"
| "join (x # y # ys) sep = x @ sep @ join (y # ys) sep"

definition toLowerChar :: "char \<Rightarrow> char" where
  "toLowerChar c =
     (case map_of (zip ''ABCDEFGHIJKLMNOPQRSTUVWXYZ'' ''abcdefghijklmnopqrstuvwxyz'') c of
        None \<Rightarrow> c
      | Some l \<Rightarrow> l)"

definition toLowerCase :: "string \<Rightarrow> string" where
  "toLowerCase s = map toLowerChar s"

fun starts_with :: "string \<Rightarrow> string \<Rightarrow> bool" where
  "starts_with hay [] = True"
| "starts_with [] (n # ns) = False"
| "starts_with (h # hs) (n # ns) = (h = n \<and> starts_with hs ns)"

fun str_includes :: "string \<Rightarrow> string \<Rightarrow> bool" where
  "str_includes [] needle = (needle = [])"
| "str_includes (h # hs) needle = (starts_with (h # hs) needle \<or> str_includes hs needle)"

definition swap_keywords :: "string list" where
  "swap_keywords = [''swap'', ''exchange'', ''trade'', ''buy'', ''sell'']"

text \<open>Lines 119 to 129: true when the block returns \<open>swap\<close>.\<close>

definition log_says_swap :: "tx_meta option \<Rightarrow> bool" where
  "log_says_swap m =
     (case m of None \<Rightarrow> False
      | Some mm \<Rightarrow>
          (case logMessages mm of None \<Rightarrow> False
           | Some logs \<Rightarrow>
               (let logText = toLowerCase (join logs '' '')
                in list_ex (str_includes logText) swap_keywords)))"

text \<open>Lines 132 to 143: the loop over the inner instruction groups. A group
  without an \<open>instructions\<close> list raises when the loop reaches it.\<close>

definition inner_match :: "instruction \<Rightarrow> bool" where
  "inner_match ix =
     ((programId ix = Some TOKEN_PROGRAM \<and>
       (program ix = Some ''spl-token'' \<and>
        (parsed_type ix = Some ''transfer'' \<or> parsed_type ix = Some ''transferChecked'')))
      \<or> is_swap_program ix)"

fun inner_scan :: "inner_group list \<Rightarrow> js_error + bool" where
  "inner_scan [] = Inr False"
| "inner_scan (g # gs) =
     (case group_instructions g of
        None \<Rightarrow> Inl TypeError
      | Some ixs \<Rightarrow> if list_ex inner_match ixs then Inr True else inner_scan gs)"

definition inner_says_swap :: "tx_meta option \<Rightarrow> js_error + bool" where
  "inner_says_swap m =
     (case m of None \<Rightarrow> Inr False
      | Some mm \<Rightarrow>
          (case innerInstructions mm of None \<Rightarrow> Inr False | Some gs \<Rightarrow> inner_scan gs))"

definition typed_result :: "tx_type \<Rightarrow> result" where
  "typed_result t = default_result\<lparr>rtype := t\<rparr>"

text \<open>Lines 49 to 145, once \<open>instructions\<close> has been read.\<close>

definition classify_instructions ::
    "tx_meta option \<Rightarrow> instruction list \<Rightarrow> string \<Rightarrow> js_error + result" where
  "classify_instructions m ixs sourceAddress =
     (case native_transfer m ixs sourceAddress of
        Some r \<Rightarrow> Inr r
      | None \<Rightarrow>
          if list_ex is_token_transfer ixs then
            (if list_ex is_swap_program ixs then Inr (typed_result Swap)
             else Inr (typed_result TokenTransfer))
          else if list_ex is_swap_program ixs then Inr (typed_result Swap)
          else if log_says_swap m then Inr (typed_result Swap)
          else
            (case inner_says_swap m of
               Inl e \<Rightarrow> Inl e
             | Inr found \<Rightarrow> Inr (if found then typed_result Swap else default_result)))"

text \<open>The whole function: the guard of line 28, then \<^verbatim>\<open>instructions.length\<close>,
  which raises when the message has no \<open>instructions\<close>.\<close>

definition determineTransactionType :: "parsed_tx option \<Rightarrow> string \<Rightarrow> js_error + result" where
  "determineTransactionType tx sourceAddress =
     (case tx of
        None \<Rightarrow> Inr default_result
      | Some t \<Rightarrow>
          (case transaction t of
             None \<Rightarrow> Inr default_result
           | Some body \<Rightarrow>
               (case message body of
                  None \<Rightarrow> Inr default_result
                | Some msg \<Rightarrow>
                    (case instructions msg of
                       None \<Rightarrow> Inl TypeError
                     | Some ixs \<Rightarrow> classify_instructions (meta t) ixs sourceAddress))))"

section \<open>The aggregator\<close>

text \<open>
  \<open>relatedAddressMap\<close> is a \<^verbatim>\<open>Map\<close>: an association list in insertion
  order. \<^verbatim>\<open>set\<close> on a key that is present replaces the value in place, on a
  new key it appends. A counter is a JavaScript number that holds a natural
  number: \<^verbatim>\<open>++\<close> adds one exactly below \<open>2\<^sup>5\<^sup>3\<close> and rounds the
  sum to the nearest binary64 number, ties to even, from there on.
\<close>

record counts =
  sent :: nat
  received :: nat

type_synonym ledger = "(string \<times> counts) list"

fun map_get :: "ledger \<Rightarrow> string \<Rightarrow> counts option" where
  "map_get [] k = None"
| "map_get ((k', v) # rest) k = (if k' = k then Some v else map_get rest k)"

fun map_set :: "ledger \<Rightarrow> string \<Rightarrow> counts \<Rightarrow> ledger" where
  "map_set [] k v = [(k, v)]"
| "map_set ((k', v') # rest) k v =
     (if k' = k then (k, v) # rest else (k', v') # map_set rest k v)"

text \<open>\<^verbatim>\<open>relatedAddressMap.get(a) || { sent: 0, received: 0 }\<close>.\<close>

definition get_or_zero :: "ledger \<Rightarrow> string \<Rightarrow> counts" where
  "get_or_zero l k = (case map_get l k of None \<Rightarrow> \<lparr>sent = 0, received = 0\<rparr> | Some c \<Rightarrow> c)"

text \<open>
  \<^verbatim>\<open>++\<close> on a counter. Below \<open>2\<^sup>5\<^sup>3 = 9007199254740992\<close> the sum
  is exact. From \<open>2\<^sup>5\<^sup>3\<close> up to \<open>2\<^sup>5\<^sup>4 = 18014398509481984\<close> the
  binary64 numbers are the even naturals and the sum lies midway between two of
  them: it is rounded to the multiple of 4. From \<open>2\<^sup>5\<^sup>4\<close> on the
  sum is rounded back to the counter.
\<close>

definition increment :: "nat \<Rightarrow> nat" where
  "increment n =
     (if n < 9007199254740992 then n + 1
      else if n < 18014398509481984 \<and> n mod 4 = 2 then n + 2
      else n)"

text \<open>Lines 277 to 283: the counter the direction tag names.\<close>

definition bump :: "string \<Rightarrow> counts \<Rightarrow> counts" where
  "bump dir addrData =
     (if dir = ''sent'' then addrData\<lparr>sent := increment (sent addrData)\<rparr>
      else if dir = ''received'' then addrData\<lparr>received := increment (received addrData)\<rparr>
      else addrData)"

text \<open>The callback of \<^verbatim>\<open>forEach\<close> (lines 276 to 286); it has no
  \<^verbatim>\<open>throw\<close>.\<close>

definition fold_pair :: "ledger \<Rightarrow> related_address \<Rightarrow> js_error + ledger" where
  "fold_pair l addrInfo =
     Inr (map_set l (address addrInfo)
            (bump (direction addrInfo) (get_or_zero l (address addrInfo))))"

fun fold_related :: "ledger \<Rightarrow> related_address list \<Rightarrow> js_error + ledger" where
  "fold_related l [] = Inr l"
| "fold_related l (a # as) =
     (case fold_pair l a of Inl e \<Rightarrow> Inl e | Inr l' \<Rightarrow> fold_related l' as)"

section \<open>The loop over the transactions\<close>

text \<open>
  Lines 250 to 308 of \<^verbatim>\<open>main\<close>, without the fetching and the printing:
  a transaction that was not found (\<open>None\<close>) is skipped, every other one is
  classified and its related addresses are folded into the map. The value is
  the list of the types in order and the final map; an exception ends the run.
\<close>

fun process_transactions ::
    "ledger \<Rightarrow> parsed_tx option list \<Rightarrow> string \<Rightarrow> js_error + (tx_type list \<times> ledger)" where
  "process_transactions l [] q = Inr ([], l)"
| "process_transactions l (None # rest) q = process_transactions l rest q"
| "process_transactions l (Some t # rest) q =
     (case determineTransactionType (Some t) q of
        Inl e \<Rightarrow> Inl e
      | Inr txInfo \<Rightarrow>
          (case fold_related l (relatedAddresses txInfo) of
             Inl e \<Rightarrow> Inl e
           | Inr l' \<Rightarrow>
               (case process_transactions l' rest q of
                  Inl e \<Rightarrow> Inl e
                | Inr (types, l'') \<Rightarrow> Inr (rtype txInfo # types, l''))))"

text \<open>Line 203: the number of transactions a run asks for,
  \<^verbatim>\<open>Math.min(providedLimit, 1000)\<close>.\<close>

definition capped_limit :: "nat \<Rightarrow> nat" where
  "capped_limit providedLimit = min providedLimit 1000"

text \<open>A bound on every counter of a map.\<close>

definition counts_below :: "nat \<Rightarrow> ledger \<Rightarrow> bool" where
  "counts_below b l = list_all (\<lambda>(k, c). sent c \<le> b \<and> received c \<le> b) l"

section \<open>Sample transactions\<close>

text \<open>Inputs for the concrete runs below: a system-program transfer, a
  compute-budget instruction, a memo, a token-program instruction, a call of
  the first program of \<open>knownSwapPrograms\<close>, and a transaction built
  around a list of instructions.\<close>

definition system_transfer_ix :: "string option \<Rightarrow> string option \<Rightarrow> nat option \<Rightarrow> instruction" where
  "system_transfer_ix src dst n =
     \<lparr>programId = Some ''11111111111111111111111111111111'', program = Some ''system'',
      parsed = Some \<lparr>ptype = Some ''transfer'',
                     info = Some \<lparr>source = src, destination = dst, lamports = n\<rparr>\<rparr>\<rparr>"

definition compute_budget_ix :: instruction where
  "compute_budget_ix =
     \<lparr>programId = Some ''ComputeBudget111111111111111111111111111111'', program = None,
      parsed = None\<rparr>"

definition memo_ix :: instruction where
  "memo_ix =
     \<lparr>programId = Some ''MemoSq4gqABAXKb96qnH8TysNcWxMyWCqXgDLGmfcHr'',
      program = Some ''spl-memo'', parsed = None\<rparr>"

definition token_ix :: "string \<Rightarrow> instruction" where
  "token_ix ty =
     \<lparr>programId = Some ''TokenkegQfeZyiNwAJbNbGKPFXCWuBvf9Ss623VQ5DA'',
      program = Some ''spl-token'', parsed = Some \<lparr>ptype = Some ty, info = None\<rparr>\<rparr>"

definition jupiter_ix :: instruction where
  "jupiter_ix =
     \<lparr>programId = Some ''JUP6LkbZbjS1jKKwapdHNy74zcZ3tLUZoi5QNyVTaV4'', program = None,
      parsed = None\<rparr>"

definition tx_of :: "instruction list \<Rightarrow> tx_meta option \<Rightarrow> parsed_tx" where
  "tx_of ixs m =
     \<lparr>transaction = Some \<lparr>message = Some \<lparr>instructions = Some ixs\<rparr>\<rparr>, meta = m\<rparr>"

definition logs_meta :: "string list \<Rightarrow> tx_meta" where
  "logs_meta logs =
     \<lparr>preTokenBalances = None, postTokenBalances = None, logMessages = Some logs,
      innerInstructions = None\<rparr>"

section \<open>Facts about the helpers\<close>

lemma map_get_map_set: "map_get (map_set l k v) k' = (if k' = k then Some v else map_get l k')"
  by (induction l) auto

lemmas field_defs = parsed_type_def parsed_info_of_def info_field_def

lemmas program_ids = SYSTEM_PROGRAM_def TOKEN_PROGRAM_def COMPUTE_BUDGET_PROGRAM_def
  knownSwapPrograms_def

lemmas instruction_tests = is_system_transfer_def is_compute_budget_def is_advance_nonce_def
  is_token_transfer_def is_swap_program_def inner_match_def

lemmas rule_defs = determineTransactionType_def classify_instructions_def native_transfer_def
  simple_shape_def hasTokenBalanceChanges_def nonempty_opt_def transfer_result_def
  counterparty_def sol_amount_def log_says_swap_def inner_says_swap_def typed_result_def
  default_result_def

lemmas string_defs = toLowerCase_def toLowerChar_def swap_keywords_def

lemmas sample_defs = system_transfer_ix_def compute_budget_ix_def memo_ix_def token_ix_def
  jupiter_ix_def tx_of_def
  logs_meta_def

lemmas eval_defs = rule_defs instruction_tests field_defs program_ids string_defs sample_defs
  Let_def

text \<open>Only the native-transfer block gives the type \<open>Transfer\<close>.\<close>

lemma native_transfer_type: "native_transfer m ixs q = Some r \<Longrightarrow> rtype r = Transfer"
  by (auto simp: native_transfer_def transfer_result_def Let_def split: if_splits option.splits)

lemma native_transfer_iff:
  "native_transfer m ixs q = Some r \<longleftrightarrow>
     simple_shape ixs \<and> \<not> hasTokenBalanceChanges m \<and>
     (\<exists>ix. find is_system_transfer ixs = Some ix \<and> r = transfer_result ix q)"
  by (auto simp: native_transfer_def split: if_splits option.splits)

lemma classify_transfer_iff:
  "classify_instructions m ixs q = Inr r \<and> rtype r = Transfer \<longleftrightarrow>
     native_transfer m ixs q = Some r"
  by (auto simp: classify_instructions_def typed_result_def default_result_def
      native_transfer_type split: option.splits if_splits sum.splits)

lemma determine_transfer_iff:
  "determineTransactionType tx q = Inr r \<and> rtype r = Transfer \<longleftrightarrow>
     (\<exists>t body msg ixs. tx = Some t \<and> transaction t = Some body \<and> message body = Some msg \<and>
        instructions msg = Some ixs \<and> native_transfer (meta t) ixs q = Some r)"
  unfolding determineTransactionType_def
  using classify_transfer_iff [of _ _ q r]
  by (auto simp: default_result_def split: option.splits)

lemma counterparty_length: "length (counterparty src dst q) \<le> 1"
  by (simp add: counterparty_def split: option.splits)

lemma classify_other_related:
  "classify_instructions m ixs q = Inr r \<Longrightarrow> rtype r \<noteq> Transfer \<Longrightarrow> relatedAddresses r = []"
  by (auto simp: classify_instructions_def typed_result_def default_result_def
      native_transfer_type split: option.splits if_splits sum.splits)

section \<open>Related addresses of a result\<close>

text \<open>
  What holds of the invariant on every input: a transfer has at most one
  related address, and every other type has none.
\<close>

lemma classify_related_shape:
  assumes "classify_instructions m ixs q = Inr r"
  shows "if rtype r = Transfer then length (relatedAddresses r) \<le> 1
         else relatedAddresses r = []"
proof (cases "rtype r = Transfer")
  case True
  with assms have "native_transfer m ixs q = Some r"
    using classify_transfer_iff by blast
  then obtain ix where "r = transfer_result ix q"
    by (auto simp: native_transfer_iff)
  then have "relatedAddresses r =
      counterparty (info_field source ix) (info_field destination ix) q"
    by (simp add: transfer_result_def Let_def)
  then show ?thesis
    using True counterparty_length [of "info_field source ix" "info_field destination ix" q]
    by simp
next
  case False
  then show ?thesis
    using assms classify_other_related by simp
qed

theorem related_shape:
  assumes "determineTransactionType tx q = Inr r"
  shows "if rtype r = Transfer then length (relatedAddresses r) \<le> 1
         else relatedAddresses r = []"
proof (cases "\<exists>t body msg ixs. tx = Some t \<and> transaction t = Some body \<and>
    message body = Some msg \<and> instructions msg = Some ixs")
  case True
  then obtain t body msg ixs where "tx = Some t" "transaction t = Some body"
    "message body = Some msg" "instructions msg = Some ixs"
    by blast
  with assms have "classify_instructions (meta t) ixs q = Inr r"
    by (simp add: determineTransactionType_def)
  then show ?thesis
    by (rule classify_related_shape)
next
  case False
  with assms have "r = default_result"
    by (auto simp: determineTransactionType_def split: option.splits)
  then show ?thesis
    by (simp add: default_result_def)
qed

theorem related_shape_witness:
  "determineTransactionType
     (Some (tx_of [compute_budget_ix, system_transfer_ix (Some ''A'') (Some ''Q'') (Some 7)]
        None)) ''Q''
   = Inr \<lparr>rtype = Transfer,
          relatedAddresses = [\<lparr>address = ''A'', direction = ''received''\<rparr>],
          details = Some \<lparr>details_source = Some ''A'', details_destination = Some ''Q'',
                          amount = Some (7 / 1000000000)\<rparr>\<rparr> \<and>
   length [\<lparr>address = ''A'', direction = ''received''\<rparr>] \<le> 1"
  using related_shape [of
      "Some (tx_of [compute_budget_ix, system_transfer_ix (Some ''A'') (Some ''Q'') (Some 7)]
        None)" "''Q''"
      "\<lparr>rtype = Transfer,
          relatedAddresses = [\<lparr>address = ''A'', direction = ''received''\<rparr>],
          details = Some \<lparr>details_source = Some ''A'', details_destination = Some ''Q'',
                          amount = Some (7 / 1000000000)\<rparr>\<rparr>"]
  by (simp add: eval_defs)

text \<open>The one related address of a transfer between two different parties
  is not the query address.\<close>

lemma counterparty_other:
  "counterparty (Some s) (Some d) q = [a] \<Longrightarrow> s \<noteq> d \<Longrightarrow> address a \<noteq> q"
  by (auto simp: counterparty_def split: if_splits)

text \<open>
  Claim C1. A transfer has at most one related address, which is never the
  query address, and the other types have none. The comment of line 75 names
  the counterparty "the address that's not the source address". On a
  self-transfer, whose source and destination are both the query address
  \<open>Q\<close>, the branch of line 80 pushes the destination, which is \<open>Q\<close>
  itself, tagged \<open>sent\<close>.
\<close>

theorem self_transfer_related:
  "determineTransactionType
     (Some \<lparr>transaction = Some \<lparr>message = Some \<lparr>instructions = Some
        [\<lparr>programId = Some ''11111111111111111111111111111111'', program = Some ''system'',
          parsed = Some \<lparr>ptype = Some ''transfer'',
            info = Some \<lparr>source = Some ''Q'', destination = Some ''Q'',
                         lamports = Some 5\<rparr>\<rparr>\<rparr>]\<rparr>\<rparr>,
       meta = None\<rparr>) ''Q''
   = Inr \<lparr>rtype = Transfer,
          relatedAddresses = [\<lparr>address = ''Q'', direction = ''sent''\<rparr>],
          details = Some \<lparr>details_source = Some ''Q'', details_destination = Some ''Q'',
                          amount = Some (5 / 1000000000)\<rparr>\<rparr>"
  by (simp add: eval_defs)

section \<open>Exceptions\<close>

text \<open>
  Claim C2. The classifier raises on no input, a message without an
  instructions list included. The guard of line 28 returns the default result
  for a missing transaction or message, but line 50 reads
  \<^verbatim>\<open>instructions.length\<close> unguarded: on a message that has no
  \<open>instructions\<close> the function raises a \<^verbatim>\<open>TypeError\<close>.
\<close>

theorem missing_instructions_raises:
  "determineTransactionType
     (Some \<lparr>transaction = Some \<lparr>message = Some \<lparr>instructions = None\<rparr>\<rparr>, meta = None\<rparr>) q
   = Inl TypeError"
  by (simp add: determineTransactionType_def)

text \<open>The classifier raises only there and on an inner group that has no
  \<open>instructions\<close>.\<close>

lemma inner_scan_raises:
  "inner_scan gs = Inl e \<Longrightarrow> list_ex (\<lambda>g. group_instructions g = None) gs"
  by (induction gs) (auto split: option.splits if_splits)

theorem raises_only_without_list:
  assumes "determineTransactionType tx q = Inl e"
  shows "\<exists>t body msg. tx = Some t \<and> transaction t = Some body \<and> message body = Some msg \<and>
     (instructions msg = None \<or>
      (\<exists>m gs. meta t = Some m \<and> innerInstructions m = Some gs \<and>
         list_ex (\<lambda>g. group_instructions g = None) gs))"
proof -
  from assms obtain t body msg where
    tx: "tx = Some t" "transaction t = Some body" "message body = Some msg"
    by (auto simp: determineTransactionType_def split: option.splits)
  show ?thesis
  proof (cases "instructions msg")
    case None
    with tx show ?thesis by blast
  next
    case (Some ixs)
    with assms tx have "classify_instructions (meta t) ixs q = Inl e"
      by (simp add: determineTransactionType_def)
    then have "inner_says_swap (meta t) = Inl e"
      by (auto simp: classify_instructions_def split: option.splits if_splits sum.splits)
    then obtain m gs where "meta t = Some m" "innerInstructions m = Some gs"
      "inner_scan gs = Inl e"
      by (auto simp: inner_says_swap_def split: option.splits)
    with tx show ?thesis
      using inner_scan_raises by blast
  qed
qed

theorem raises_only_without_list_witness:
  "determineTransactionType
     (Some (tx_of [memo_ix]
        (Some \<lparr>preTokenBalances = None, postTokenBalances = None, logMessages = None,
               innerInstructions = Some [\<lparr>group_index = 0, group_instructions = None\<rparr>]\<rparr>)))
     ''Q''
   = Inl TypeError \<and>
   list_ex (\<lambda>g. group_instructions g = None) [\<lparr>group_index = 0, group_instructions = None\<rparr>]"
  using raises_only_without_list [of
      "Some (tx_of [memo_ix]
        (Some \<lparr>preTokenBalances = None, postTokenBalances = None, logMessages = None,
               innerInstructions = Some [\<lparr>group_index = 0, group_instructions = None\<rparr>]\<rparr>))"
      "''Q''" TypeError]
  by (simp add: eval_defs)

section \<open>The degenerate case\<close>

text \<open>
  Claim C4. When the transaction, its \<open>transaction\<close> field or the
  \<open>message\<close> of that field is absent, the classifier returns the type
  \<open>Unknown\<close> with no related addresses and empty details, and raises
  nothing.
\<close>

theorem missing_message_unknown:
  "determineTransactionType None q =
     Inr \<lparr>rtype = Unknown, relatedAddresses = [], details = None\<rparr> \<and>
   (transaction t = None \<longrightarrow>
      determineTransactionType (Some t) q =
        Inr \<lparr>rtype = Unknown, relatedAddresses = [], details = None\<rparr>) \<and>
   (transaction t = Some body \<longrightarrow> message body = None \<longrightarrow>
      determineTransactionType (Some t) q =
        Inr \<lparr>rtype = Unknown, relatedAddresses = [], details = None\<rparr>)"
  by (simp add: determineTransactionType_def default_result_def)

theorem missing_message_unknown_witness:
  "determineTransactionType None ''Q'' =
     Inr \<lparr>rtype = Unknown, relatedAddresses = [], details = None\<rparr> \<and>
   transaction \<lparr>transaction = None, meta = None\<rparr> = None \<and>
   determineTransactionType (Some \<lparr>transaction = None, meta = None\<rparr>) ''Q'' =
     Inr \<lparr>rtype = Unknown, relatedAddresses = [], details = None\<rparr> \<and>
   transaction \<lparr>transaction = Some \<lparr>message = None\<rparr>, meta = None\<rparr> = Some \<lparr>message = None\<rparr> \<and>
   message \<lparr>message = None\<rparr> = None \<and>
   determineTransactionType (Some \<lparr>transaction = Some \<lparr>message = None\<rparr>, meta = None\<rparr>) ''Q'' =
     Inr \<lparr>rtype = Unknown, relatedAddresses = [], details = None\<rparr>"
  using missing_message_unknown [of "''Q''" "\<lparr>transaction = None, meta = None\<rparr>"]
    missing_message_unknown [of "''Q''" "\<lparr>transaction = Some \<lparr>message = None\<rparr>, meta = None\<rparr>"
      "\<lparr>message = None\<rparr>"]
  by simp

section \<open>Token transfers and swaps\<close>

text \<open>
  Claim C6. A transaction that the native-transfer block does not return
  from and that has a top-level token-program instruction of parsed type
  \<open>transfer\<close> or \<open>transferChecked\<close> is a swap when some top-level
  instruction's program id is in \<open>knownSwapPrograms\<close>, and a token
  transfer otherwise.
\<close>

theorem token_rule:
  assumes "transaction t = Some body" and "message body = Some msg"
    and "instructions msg = Some ixs"
    and "native_transfer (meta t) ixs q = None"
    and "list_ex is_token_transfer ixs"
  shows "determineTransactionType (Some t) q =
           Inr \<lparr>rtype = (if list_ex is_swap_program ixs then Swap else TokenTransfer),
                relatedAddresses = [], details = None\<rparr>"
  using assms
  by (simp add: determineTransactionType_def classify_instructions_def typed_result_def
      default_result_def)

theorem token_rule_witness:
  "native_transfer None [token_ix ''transferChecked'', jupiter_ix] ''Q'' = None \<and>
   list_ex is_token_transfer [token_ix ''transferChecked'', jupiter_ix] \<and>
   list_ex is_swap_program [token_ix ''transferChecked'', jupiter_ix] \<and>
   determineTransactionType
     (Some (tx_of [token_ix ''transferChecked'', jupiter_ix] None)) ''Q''
   = Inr \<lparr>rtype = Swap, relatedAddresses = [], details = None\<rparr> \<and>
   native_transfer None [token_ix ''transfer''] ''Q'' = None \<and>
   list_ex is_token_transfer [token_ix ''transfer''] \<and>
   \<not> list_ex is_swap_program [token_ix ''transfer''] \<and>
   determineTransactionType (Some (tx_of [token_ix ''transfer''] None)) ''Q''
   = Inr \<lparr>rtype = TokenTransfer, relatedAddresses = [], details = None\<rparr>"
  using
    token_rule [of "tx_of [token_ix ''transferChecked'', jupiter_ix] None"
      "\<lparr>message = Some \<lparr>instructions = Some [token_ix ''transferChecked'', jupiter_ix]\<rparr>\<rparr>"
      "\<lparr>instructions = Some [token_ix ''transferChecked'', jupiter_ix]\<rparr>"
      "[token_ix ''transferChecked'', jupiter_ix]" "''Q''"]
    token_rule [of "tx_of [token_ix ''transfer''] None"
      "\<lparr>message = Some \<lparr>instructions = Some [token_ix ''transfer'']\<rparr>\<rparr>"
      "\<lparr>instructions = Some [token_ix ''transfer'']\<rparr>"
      "[token_ix ''transfer'']" "''Q''"]
  by (simp add: eval_defs)

section \<open>The tally\<close>

lemma get_or_zero_map_set: "get_or_zero (map_set l k v) k' = (if k' = k then v else get_or_zero l k')"
  by (simp add: get_or_zero_def map_get_map_set)

text \<open>The counters: exact below \<open>2\<^sup>5\<^sup>3\<close>, stuck at \<open>2\<^sup>5\<^sup>3\<close>.\<close>

lemma increment_exact: "n < 9007199254740992 \<Longrightarrow> increment n = Suc n"
  by (simp add: increment_def)

lemma increment_stalls: "increment 9007199254740992 = 9007199254740992"
  by (simp add: increment_def)

lemma get_or_zero_below:
  "counts_below b l \<Longrightarrow> sent (get_or_zero l k) \<le> b \<and> received (get_or_zero l k) \<le> b"
  by (induction l) (auto simp: counts_below_def get_or_zero_def)

lemma counts_below_mono: "counts_below b l \<Longrightarrow> b \<le> b' \<Longrightarrow> counts_below b' l"
  by (induction l) (auto simp: counts_below_def)

lemma counts_below_map_set:
  "counts_below b l \<Longrightarrow> sent v \<le> b \<Longrightarrow> received v \<le> b \<Longrightarrow> counts_below b (map_set l k v)"
  by (induction l) (auto simp: counts_below_def)

lemma bump_below:
  assumes "b < 9007199254740992" and "sent c \<le> b" and "received c \<le> b"
  shows "sent (bump d c) \<le> Suc b \<and> received (bump d c) \<le> Suc b"
proof -
  have "sent c < 9007199254740992" and "received c < 9007199254740992"
    using assms by simp_all
  then show ?thesis
    using assms(2,3) by (simp add: bump_def increment_exact)
qed

lemma fold_sent_replicate:
  assumes "sent (get_or_zero l X) + N \<le> 9007199254740992"
  shows "\<exists>l'. fold_related l (replicate N \<lparr>address = X, direction = ''sent''\<rparr>) = Inr l' \<and>
      get_or_zero l' X = (get_or_zero l X)\<lparr>sent := sent (get_or_zero l X) + N\<rparr> \<and>
      (0 < N \<longrightarrow> map_get l' X \<noteq> None) \<and>
      (\<forall>Y. Y \<noteq> X \<longrightarrow> map_get l' Y = map_get l Y)"
  using assms
proof (induction N arbitrary: l)
  case 0
  show ?case by simp
next
  case (Suc N)
  let ?l1 = "map_set l X ((get_or_zero l X)\<lparr>sent := Suc (sent (get_or_zero l X))\<rparr>)"
  have small: "sent (get_or_zero l X) < 9007199254740992"
    using Suc.prems by simp
  have step: "fold_pair l \<lparr>address = X, direction = ''sent''\<rparr> = Inr ?l1"
    using small by (simp add: fold_pair_def bump_def increment_exact)
  have "sent (get_or_zero ?l1 X) + N \<le> 9007199254740992"
    using Suc.prems by (simp add: get_or_zero_map_set)
  from Suc.IH [OF this] obtain l' where
    run: "fold_related ?l1 (replicate N \<lparr>address = X, direction = ''sent''\<rparr>) = Inr l'"
    and cnt: "get_or_zero l' X = (get_or_zero ?l1 X)\<lparr>sent := sent (get_or_zero ?l1 X) + N\<rparr>"
    and pres: "0 < N \<longrightarrow> map_get l' X \<noteq> None"
    and others: "\<forall>Y. Y \<noteq> X \<longrightarrow> map_get l' Y = map_get ?l1 Y"
    by blast
  have "fold_related l (replicate (Suc N) \<lparr>address = X, direction = ''sent''\<rparr>) = Inr l'"
    using run step by simp
  moreover have "get_or_zero l' X = (get_or_zero l X)\<lparr>sent := sent (get_or_zero l X) + Suc N\<rparr>"
    using cnt by (simp add: get_or_zero_map_set)
  moreover have "map_get l' X \<noteq> None"
  proof (cases N)
    case 0
    with run have "l' = ?l1" by simp
    then show ?thesis by (simp add: map_get_map_set)
  next
    case (Suc n)
    with pres show ?thesis by simp
  qed
  moreover have "\<forall>Y. Y \<noteq> X \<longrightarrow> map_get l' Y = map_get l Y"
    using others by (simp add: map_get_map_set)
  ultimately show ?case by blast
qed

lemma fold_related_total: "\<exists>l'. fold_related l as = Inr l'"
  by (induction as arbitrary: l) (simp_all add: fold_pair_def)

lemma fold_pair_tagged:
  assumes "d = ''sent'' \<or> d = ''received''"
    and "sent (get_or_zero l A) < 9007199254740992"
    and "received (get_or_zero l A) < 9007199254740992"
  shows "\<exists>l1. fold_pair l \<lparr>address = A, direction = d\<rparr> = Inr l1 \<and>
    (map_get l A = None \<longrightarrow>
       map_get l1 A = Some \<lparr>sent = (if d = ''sent'' then 1 else 0),
                            received = (if d = ''received'' then 1 else 0)\<rparr>) \<and>
    (\<forall>c. map_get l A = Some c \<longrightarrow>
       map_get l1 A = Some \<lparr>sent = sent c + (if d = ''sent'' then 1 else 0),
                            received = received c + (if d = ''received'' then 1 else 0)\<rparr>) \<and>
    (\<forall>Y. Y \<noteq> A \<longrightarrow> map_get l1 Y = map_get l Y)"
  using assms
  by (auto simp: fold_pair_def bump_def get_or_zero_def map_get_map_set increment_exact)

text \<open>
  Claim C7. On a map whose counters are at most \<open>b\<close>: while
  \<open>b + N\<close> does not pass \<open>2\<^sup>5\<^sup>3\<close>, folding the pair of address \<open>X\<close>
  and direction \<open>sent\<close> \<open>N\<close> times adds \<open>N\<close> to the sent count of
  \<open>X\<close> and leaves its received count: from \<open>X\<close> absent the counts are
  \<open>N\<close> and \<open>0\<close>. While \<open>b\<close> is below \<open>2\<^sup>5\<^sup>3\<close>, one fold of a
  pair tagged \<open>sent\<close> or \<open>received\<close> starts an absent address from
  zero, adds one to the counter the tag names and to no other, and leaves the
  entry of every other address as it was. The maps of a run have \<open>b\<close> at
  most 1000, as the section on the whole run shows.
\<close>

theorem fold_sent_counts:
  assumes "counts_below b l"
  shows
  "(b + N \<le> 9007199254740992 \<longrightarrow>
    (\<exists>l'. fold_related l (replicate N \<lparr>address = X, direction = ''sent''\<rparr>) = Inr l' \<and>
      sent (get_or_zero l' X) = sent (get_or_zero l X) + N \<and>
      received (get_or_zero l' X) = received (get_or_zero l X) \<and>
      (map_get l X = None \<longrightarrow>
         sent (get_or_zero l' X) = N \<and> received (get_or_zero l' X) = 0 \<and>
         (0 < N \<longrightarrow> map_get l' X = Some \<lparr>sent = N, received = 0\<rparr>)) \<and>
      (\<forall>Y. Y \<noteq> X \<longrightarrow> map_get l' Y = map_get l Y))) \<and>
   (b < 9007199254740992 \<longrightarrow> d = ''sent'' \<or> d = ''received'' \<longrightarrow>
      (\<exists>l1. fold_pair l \<lparr>address = A, direction = d\<rparr> = Inr l1 \<and>
         (map_get l A = None \<longrightarrow>
            map_get l1 A = Some \<lparr>sent = (if d = ''sent'' then 1 else 0),
                                 received = (if d = ''received'' then 1 else 0)\<rparr>) \<and>
         (\<forall>c. map_get l A = Some c \<longrightarrow>
            map_get l1 A = Some \<lparr>sent = sent c + (if d = ''sent'' then 1 else 0),
                                 received = received c + (if d = ''received'' then 1 else 0)\<rparr>) \<and>
         (\<forall>Y. Y \<noteq> A \<longrightarrow> map_get l1 Y = map_get l Y)))"
proof (intro conjI impI)
  assume bound: "b + N \<le> 9007199254740992"
  have "sent (get_or_zero l X) \<le> b"
    using assms get_or_zero_below by blast
  with bound have "sent (get_or_zero l X) + N \<le> 9007199254740992"
    by simp
  then obtain l' where
    run: "fold_related l (replicate N \<lparr>address = X, direction = ''sent''\<rparr>) = Inr l'"
    and cnt: "get_or_zero l' X = (get_or_zero l X)\<lparr>sent := sent (get_or_zero l X) + N\<rparr>"
    and pres: "0 < N \<longrightarrow> map_get l' X \<noteq> None"
    and others: "\<forall>Y. Y \<noteq> X \<longrightarrow> map_get l' Y = map_get l Y"
    using fold_sent_replicate [of l X N] by blast
  have absent: "sent (get_or_zero l' X) = N \<and> received (get_or_zero l' X) = 0 \<and>
      (0 < N \<longrightarrow> map_get l' X = Some \<lparr>sent = N, received = 0\<rparr>)"
    if "map_get l X = None"
  proof -
    from that have zero: "get_or_zero l X = \<lparr>sent = 0, received = 0\<rparr>"
      by (simp add: get_or_zero_def)
    with cnt have eq: "get_or_zero l' X = \<lparr>sent = N, received = 0\<rparr>"
      by simp
    moreover have "map_get l' X = Some \<lparr>sent = N, received = 0\<rparr>" if "0 < N"
      using that pres eq by (auto simp: get_or_zero_def)
    ultimately show ?thesis by simp
  qed
  show "\<exists>l'. fold_related l (replicate N \<lparr>address = X, direction = ''sent''\<rparr>) = Inr l' \<and>
      sent (get_or_zero l' X) = sent (get_or_zero l X) + N \<and>
      received (get_or_zero l' X) = received (get_or_zero l X) \<and>
      (map_get l X = None \<longrightarrow>
         sent (get_or_zero l' X) = N \<and> received (get_or_zero l' X) = 0 \<and>
         (0 < N \<longrightarrow> map_get l' X = Some \<lparr>sent = N, received = 0\<rparr>)) \<and>
      (\<forall>Y. Y \<noteq> X \<longrightarrow> map_get l' Y = map_get l Y)"
    using run cnt others absent by auto
next
  assume "b < 9007199254740992" and tag: "d = ''sent'' \<or> d = ''received''"
  moreover have "sent (get_or_zero l A) \<le> b" and "received (get_or_zero l A) \<le> b"
    using assms get_or_zero_below by blast+
  ultimately have "sent (get_or_zero l A) < 9007199254740992"
    and "received (get_or_zero l A) < 9007199254740992"
    by simp_all
  with tag show "\<exists>l1. fold_pair l \<lparr>address = A, direction = d\<rparr> = Inr l1 \<and>
         (map_get l A = None \<longrightarrow>
            map_get l1 A = Some \<lparr>sent = (if d = ''sent'' then 1 else 0),
                                 received = (if d = ''received'' then 1 else 0)\<rparr>) \<and>
         (\<forall>c. map_get l A = Some c \<longrightarrow>
            map_get l1 A = Some \<lparr>sent = sent c + (if d = ''sent'' then 1 else 0),
                                 received = received c + (if d = ''received'' then 1 else 0)\<rparr>) \<and>
         (\<forall>Y. Y \<noteq> A \<longrightarrow> map_get l1 Y = map_get l Y)"
    by (rule fold_pair_tagged)
qed

theorem fold_sent_counts_witness:
  "counts_below 2 [(''Y'', \<lparr>sent = 1, received = 2\<rparr>)] \<and>
   (2::nat) + 3 \<le> 9007199254740992 \<and> (2::nat) < 9007199254740992 \<and>
   map_get [(''Y'', \<lparr>sent = 1, received = 2\<rparr>)] ''X'' = None \<and>
   (0::nat) < 3 \<and> ''Y'' \<noteq> ''X'' \<and>
   fold_related [(''Y'', \<lparr>sent = 1, received = 2\<rparr>)]
     (replicate 3 \<lparr>address = ''X'', direction = ''sent''\<rparr>)
   = Inr [(''Y'', \<lparr>sent = 1, received = 2\<rparr>), (''X'', \<lparr>sent = 3, received = 0\<rparr>)] \<and>
   map_get [(''Y'', \<lparr>sent = 1, received = 2\<rparr>), (''X'', \<lparr>sent = 3, received = 0\<rparr>)] ''Y''
   = map_get [(''Y'', \<lparr>sent = 1, received = 2\<rparr>)] ''Y'' \<and>
   map_get [(''Y'', \<lparr>sent = 1, received = 2\<rparr>)] ''Y'' = Some \<lparr>sent = 1, received = 2\<rparr> \<and>
   fold_pair [(''Y'', \<lparr>sent = 1, received = 2\<rparr>)] \<lparr>address = ''Y'', direction = ''received''\<rparr>
   = Inr [(''Y'', \<lparr>sent = 1, received = 3\<rparr>)]"
  using fold_sent_counts [of 2 "[(''Y'', \<lparr>sent = 1, received = 2\<rparr>)]" 3 "''X''"
      "''received''" "''Y''"]
  by (simp add: fold_pair_def bump_def increment_def get_or_zero_def counts_below_def
      numeral_3_eq_3)

text \<open>
  Claim C3. A pair whose direction is neither \<open>sent\<close> nor \<open>received\<close>
  is not rejected: the callback has no third branch and no \<^verbatim>\<open>throw\<close>, so
  the fold completes and the counts of the address stay as they were.
\<close>

theorem other_direction_not_rejected:
  "fold_pair [(''X'', \<lparr>sent = 2, received = 1\<rparr>)] \<lparr>address = ''X'', direction = ''burned''\<rparr>
   = Inr [(''X'', \<lparr>sent = 2, received = 1\<rparr>)] \<and>
   fold_related [(''X'', \<lparr>sent = 2, received = 1\<rparr>)]
     [\<lparr>address = ''X'', direction = ''burned''\<rparr>]
   = Inr [(''X'', \<lparr>sent = 2, received = 1\<rparr>)]"
  by (simp add: fold_pair_def bump_def get_or_zero_def)

text \<open>
  Claim C3, amended. On such a pair the fold signals no error: it completes,
  keeps the counts of an address that is present, gives an absent address an
  entry of zeros, and leaves the entry of every other address as it was.
\<close>

theorem other_direction_ignored:
  assumes "direction a \<noteq> ''sent''" and "direction a \<noteq> ''received''"
  shows "\<exists>l'. fold_pair l a = Inr l' \<and> fold_related l [a] = Inr l' \<and>
    (map_get l (address a) = None \<longrightarrow>
       map_get l' (address a) = Some \<lparr>sent = 0, received = 0\<rparr>) \<and>
    (\<forall>c. map_get l (address a) = Some c \<longrightarrow> map_get l' (address a) = Some c) \<and>
    (\<forall>Y. Y \<noteq> address a \<longrightarrow> map_get l' Y = map_get l Y)"
  using assms
  by (auto simp: fold_pair_def bump_def get_or_zero_def map_get_map_set)

theorem other_direction_ignored_witness:
  "direction \<lparr>address = ''Z'', direction = ''burned''\<rparr> \<noteq> ''sent'' \<and>
   direction \<lparr>address = ''Z'', direction = ''burned''\<rparr> \<noteq> ''received'' \<and>
   map_get [(''X'', \<lparr>sent = 2, received = 1\<rparr>)] ''Z'' = None \<and>
   ''X'' \<noteq> ''Z'' \<and>
   fold_pair [(''X'', \<lparr>sent = 2, received = 1\<rparr>)] \<lparr>address = ''Z'', direction = ''burned''\<rparr>
   = Inr [(''X'', \<lparr>sent = 2, received = 1\<rparr>), (''Z'', \<lparr>sent = 0, received = 0\<rparr>)] \<and>
   map_get [(''X'', \<lparr>sent = 2, received = 1\<rparr>), (''Z'', \<lparr>sent = 0, received = 0\<rparr>)] ''X''
   = map_get [(''X'', \<lparr>sent = 2, received = 1\<rparr>)] ''X''"
  using other_direction_ignored [of "\<lparr>address = ''Z'', direction = ''burned''\<rparr>"
      "[(''X'', \<lparr>sent = 2, received = 1\<rparr>)]"]
  by (simp add: fold_pair_def bump_def get_or_zero_def)

section \<open>Native transfers\<close>

lemma determine_classify:
  "transaction t = Some body \<Longrightarrow> message body = Some msg \<Longrightarrow> instructions msg = Some ixs \<Longrightarrow>
   determineTransactionType (Some t) q = classify_instructions (meta t) ixs q"
  by (simp add: determineTransactionType_def)

lemma counterparty_present:
  "A \<noteq> [] \<Longrightarrow> B \<noteq> [] \<Longrightarrow>
   counterparty (Some A) (Some B) q =
     (if A = q then [\<lparr>address = B, direction = ''sent''\<rparr>]
      else if B = q then [\<lparr>address = A, direction = ''received''\<rparr>]
      else [])"
  by (simp add: counterparty_def)

lemma transfer_found:
  assumes "determineTransactionType tx q = Inr r" and "rtype r = Transfer"
  shows "\<exists>t body msg ixs ix. tx = Some t \<and> transaction t = Some body \<and>
     message body = Some msg \<and> instructions msg = Some ixs \<and>
     find is_system_transfer ixs = Some ix \<and> r = transfer_result ix q"
proof -
  from assms obtain t body msg ixs where
    tx: "tx = Some t" "transaction t = Some body" "message body = Some msg"
      "instructions msg = Some ixs"
    and nt: "native_transfer (meta t) ixs q = Some r"
    using determine_transfer_iff [of tx q r] by blast
  from nt obtain ix where "find is_system_transfer ixs = Some ix" "r = transfer_result ix q"
    by (auto simp: native_transfer_iff)
  with tx show ?thesis by blast
qed

text \<open>
  Claim C5. A transaction of one instruction, or of at most four with a
  compute-budget or nonce-advance instruction among them, that contains a
  system-program transfer from \<open>A\<close> to \<open>B\<close> and has no token-balance
  changes is a transfer whose one related address is \<open>B\<close> tagged
  \<open>sent\<close> when \<open>A\<close> is the query address. The block reads only the
  first system transfer (\<^verbatim>\<open>find\<close>, line 56): with a compute-budget
  instruction and two transfers from \<open>Q\<close>, to \<open>B1\<close> and then to
  \<open>B2\<close>, the transaction contains a transfer from \<open>Q\<close> to \<open>B2\<close>,
  yet the related address is \<open>B1\<close>.
\<close>

theorem second_transfer_not_reported:
  "length [compute_budget_ix, system_transfer_ix (Some ''Q'') (Some ''B1'') (Some 5),
           system_transfer_ix (Some ''Q'') (Some ''B2'') (Some 7)] \<le> 4 \<and>
   list_ex is_compute_budget [compute_budget_ix, system_transfer_ix (Some ''Q'') (Some ''B1'') (Some 5),
           system_transfer_ix (Some ''Q'') (Some ''B2'') (Some 7)] \<and>
   List.member [compute_budget_ix, system_transfer_ix (Some ''Q'') (Some ''B1'') (Some 5),
           system_transfer_ix (Some ''Q'') (Some ''B2'') (Some 7)] (system_transfer_ix (Some ''Q'') (Some ''B2'') (Some 7)) \<and>
   is_system_transfer (system_transfer_ix (Some ''Q'') (Some ''B2'') (Some 7)) \<and>
   info_field source (system_transfer_ix (Some ''Q'') (Some ''B2'') (Some 7)) = Some ''Q'' \<and>
   info_field destination (system_transfer_ix (Some ''Q'') (Some ''B2'') (Some 7)) = Some ''B2'' \<and>
   \<not> hasTokenBalanceChanges None \<and>
   determineTransactionType
     (Some (tx_of [compute_budget_ix, system_transfer_ix (Some ''Q'') (Some ''B1'') (Some 5),
                   system_transfer_ix (Some ''Q'') (Some ''B2'') (Some 7)] None)) ''Q''
   = Inr \<lparr>rtype = Transfer,
          relatedAddresses = [\<lparr>address = ''B1'', direction = ''sent''\<rparr>],
          details = Some \<lparr>details_source = Some ''Q'', details_destination = Some ''B1'',
                          amount = Some (5 / 1000000000)\<rparr>\<rparr>"
  by (simp add: eval_defs)

text \<open>
  Claim C5, amended. When the first system-program transfer of such a
  transaction is from \<open>A\<close> to another address \<open>B\<close>, both non-empty,
  the result is a
  transfer whose related addresses are \<open>B\<close> tagged \<open>sent\<close> when \<open>A\<close>
  is the query address, else \<open>A\<close> tagged \<open>received\<close> when \<open>B\<close> is,
  else none. A transfer bundled with one compute-budget instruction is a
  transfer.
\<close>

theorem first_transfer_classified:
  assumes "transaction t = Some body" and "message body = Some msg"
    and "instructions msg = Some ixs"
    and "length ixs = 1 \<or>
         (length ixs \<le> 4 \<and> (list_ex is_compute_budget ixs \<or> list_ex is_advance_nonce ixs))"
    and "find is_system_transfer ixs = Some ix"
    and "info_field source ix = Some A" and "info_field destination ix = Some B"
    and "A \<noteq> []" and "B \<noteq> []" and "A \<noteq> B"
    and "\<not> hasTokenBalanceChanges (meta t)"
  shows "determineTransactionType (Some t) q =
     Inr \<lparr>rtype = Transfer,
          relatedAddresses =
            (if A = q then [\<lparr>address = B, direction = ''sent''\<rparr>]
             else if B = q then [\<lparr>address = A, direction = ''received''\<rparr>]
             else []),
          details = Some \<lparr>details_source = Some A, details_destination = Some B,
                          amount = sol_amount (info_field lamports ix)\<rparr>\<rparr>"
proof -
  have "native_transfer (meta t) ixs q = Some (transfer_result ix q)"
    using assms(4,5,11) by (simp add: native_transfer_def simple_shape_def)
  then have "determineTransactionType (Some t) q = Inr (transfer_result ix q)"
    using assms(1-3) by (simp add: determine_classify classify_instructions_def)
  then show ?thesis
    using assms(6-9) by (simp add: transfer_result_def Let_def counterparty_present)
qed

theorem first_transfer_classified_witness:
  "''A'' \<noteq> [] \<and> ''B'' \<noteq> [] \<and> ''A'' \<noteq> ''B'' \<and>
   length [compute_budget_ix, system_transfer_ix (Some ''A'') (Some ''B'') (Some 1000000000)] \<le> 4 \<and>
   list_ex is_compute_budget [compute_budget_ix, system_transfer_ix (Some ''A'') (Some ''B'') (Some 1000000000)] \<and>
   find is_system_transfer [compute_budget_ix, system_transfer_ix (Some ''A'') (Some ''B'') (Some 1000000000)]
     = Some (system_transfer_ix (Some ''A'') (Some ''B'') (Some 1000000000)) \<and>
   \<not> hasTokenBalanceChanges None \<and>
   determineTransactionType
     (Some (tx_of [compute_budget_ix, system_transfer_ix (Some ''A'') (Some ''B'') (Some 1000000000)] None)) ''A''
   = Inr \<lparr>rtype = Transfer,
          relatedAddresses = [\<lparr>address = ''B'', direction = ''sent''\<rparr>],
          details = Some \<lparr>details_source = Some ''A'', details_destination = Some ''B'',
                          amount = Some 1\<rparr>\<rparr> \<and>
   length [system_transfer_ix (Some ''A'') (Some ''B'') (Some 1000000000)] = 1 \<and>
   determineTransactionType
     (Some (tx_of [system_transfer_ix (Some ''A'') (Some ''B'') (Some 1000000000)] None)) ''B''
   = Inr \<lparr>rtype = Transfer,
          relatedAddresses = [\<lparr>address = ''A'', direction = ''received''\<rparr>],
          details = Some \<lparr>details_source = Some ''A'', details_destination = Some ''B'',
                          amount = Some 1\<rparr>\<rparr>"
  using
    first_transfer_classified [of
      "tx_of [compute_budget_ix, system_transfer_ix (Some ''A'') (Some ''B'') (Some 1000000000)] None"
      "\<lparr>message = Some \<lparr>instructions =
         Some [compute_budget_ix, system_transfer_ix (Some ''A'') (Some ''B'') (Some 1000000000)]\<rparr>\<rparr>"
      "\<lparr>instructions = Some [compute_budget_ix, system_transfer_ix (Some ''A'') (Some ''B'') (Some 1000000000)]\<rparr>"
      "[compute_budget_ix, system_transfer_ix (Some ''A'') (Some ''B'') (Some 1000000000)]"
      "system_transfer_ix (Some ''A'') (Some ''B'') (Some 1000000000)" "''A''" "''B''" "''A''"]
    first_transfer_classified [of
      "tx_of [system_transfer_ix (Some ''A'') (Some ''B'') (Some 1000000000)] None"
      "\<lparr>message = Some \<lparr>instructions = Some [system_transfer_ix (Some ''A'') (Some ''B'') (Some 1000000000)]\<rparr>\<rparr>"
      "\<lparr>instructions = Some [system_transfer_ix (Some ''A'') (Some ''B'') (Some 1000000000)]\<rparr>"
      "[system_transfer_ix (Some ''A'') (Some ''B'') (Some 1000000000)]"
      "system_transfer_ix (Some ''A'') (Some ''B'') (Some 1000000000)" "''A''" "''B''" "''B''"]
  by (simp add: eval_defs)

section \<open>The amount\<close>

text \<open>
  Claim C8. The amount in the details of a transfer is the lamports value
  divided by \<open>10\<^sup>9\<close>, for every lamports value, 0 included. Line 72 tests
  the truthiness of the value first: on 0 lamports the amount recorded is
  \<^verbatim>\<open>null\<close>, not 0.
\<close>

theorem zero_lamports_null:
  "determineTransactionType (Some (tx_of [system_transfer_ix (Some ''A'') (Some ''B'') (Some 0)] None)) ''A''
   = Inr \<lparr>rtype = Transfer,
          relatedAddresses = [\<lparr>address = ''B'', direction = ''sent''\<rparr>],
          details = Some \<lparr>details_source = Some ''A'', details_destination = Some ''B'',
                          amount = None\<rparr>\<rparr>"
  by (simp add: eval_defs)

text \<open>
  Claim C8, amended. For a transfer whose instruction (the first system
  transfer) has a lamports value \<open>n\<close> other than 0, the amount in the
  details is \<open>n / 10\<^sup>9\<close>; \<open>10\<^sup>9\<close> lamports give exactly 1.
\<close>

theorem transfer_amount:
  assumes "determineTransactionType (Some t) q = Inr r" and "rtype r = Transfer"
    and "transaction t = Some body" and "message body = Some msg"
    and "instructions msg = Some ixs"
    and "find is_system_transfer ixs = Some ix"
    and "info_field lamports ix = Some n" and "n \<noteq> 0"
  shows "\<exists>d. details r = Some d \<and> amount d = Some (real n / 1000000000) \<and>
     (n = 1000000000 \<longrightarrow> amount d = Some 1)"
proof -
  have "r = transfer_result ix q"
    using transfer_found [OF assms(1,2)] assms(3-6) by auto
  then have "details r = Some \<lparr>details_source = info_field source ix,
      details_destination = info_field destination ix,
      amount = Some (real n / 1000000000)\<rparr>"
    using assms(7,8) by (simp add: transfer_result_def Let_def sol_amount_def)
  then show ?thesis by simp
qed

theorem transfer_amount_witness:
  "determineTransactionType
     (Some (tx_of [system_transfer_ix (Some ''A'') (Some ''B'') (Some 1000000000)] None)) ''A''
   = Inr \<lparr>rtype = Transfer,
          relatedAddresses = [\<lparr>address = ''B'', direction = ''sent''\<rparr>],
          details = Some \<lparr>details_source = Some ''A'', details_destination = Some ''B'',
                          amount = Some 1\<rparr>\<rparr> \<and>
   find is_system_transfer [system_transfer_ix (Some ''A'') (Some ''B'') (Some 1000000000)]
     = Some (system_transfer_ix (Some ''A'') (Some ''B'') (Some 1000000000)) \<and>
   info_field lamports (system_transfer_ix (Some ''A'') (Some ''B'') (Some 1000000000)) = Some 1000000000 \<and>
   (1000000000::nat) \<noteq> 0 \<and>
   amount \<lparr>details_source = Some ''A'', details_destination = Some ''B'', amount = Some 1\<rparr>
     = Some (real 1000000000 / 1000000000)"
  using transfer_amount [of
      "tx_of [system_transfer_ix (Some ''A'') (Some ''B'') (Some 1000000000)] None" "''A''"
      "\<lparr>rtype = Transfer,
          relatedAddresses = [\<lparr>address = ''B'', direction = ''sent''\<rparr>],
          details = Some \<lparr>details_source = Some ''A'', details_destination = Some ''B'',
                          amount = Some 1\<rparr>\<rparr>"
      "\<lparr>message = Some \<lparr>instructions = Some [system_transfer_ix (Some ''A'') (Some ''B'') (Some 1000000000)]\<rparr>\<rparr>"
      "\<lparr>instructions = Some [system_transfer_ix (Some ''A'') (Some ''B'') (Some 1000000000)]\<rparr>"
      "[system_transfer_ix (Some ''A'') (Some ''B'') (Some 1000000000)]"
      "system_transfer_ix (Some ''A'') (Some ''B'') (Some 1000000000)" 1000000000]
  by (simp add: eval_defs)

text \<open>
  Claim C10. A transfer whose instruction has no source or no destination
  has no related address, and its details still record whichever of source,
  destination and amount are present. The first part holds; a lamports value
  of 0 is present and is recorded as \<^verbatim>\<open>null\<close>.
\<close>

theorem missing_party_zero_amount:
  "determineTransactionType
     (Some (tx_of [system_transfer_ix (Some ''A'') None (Some 0)] None)) ''A''
   = Inr \<lparr>rtype = Transfer, relatedAddresses = [],
          details = Some \<lparr>details_source = Some ''A'', details_destination = None,
                          amount = None\<rparr>\<rparr>"
  by (simp add: eval_defs)

text \<open>
  Claim C10, amended. A transfer whose instruction has no source or no
  destination has no related address; its details hold the source and the
  destination as the instruction has them (missing where it is missing), and
  the amount \<open>n / 10\<^sup>9\<close> when the lamports value \<open>n\<close> is present and
  not 0.
\<close>

theorem missing_party_no_related:
  assumes "determineTransactionType (Some t) q = Inr r" and "rtype r = Transfer"
    and "transaction t = Some body" and "message body = Some msg"
    and "instructions msg = Some ixs"
    and "find is_system_transfer ixs = Some ix"
    and "info_field source ix = None \<or> info_field destination ix = None"
  shows "relatedAddresses r = [] \<and>
     (\<exists>d. details r = Some d \<and>
        details_source d = info_field source ix \<and>
        details_destination d = info_field destination ix \<and>
        (\<forall>n. info_field lamports ix = Some n \<longrightarrow> n \<noteq> 0 \<longrightarrow>
             amount d = Some (real n / 1000000000)))"
proof -
  have r: "r = transfer_result ix q"
    using transfer_found [OF assms(1,2)] assms(3-6) by auto
  have "relatedAddresses r = []"
    using r assms(7)
    by (auto simp: transfer_result_def Let_def counterparty_def split: option.splits)
  moreover have "details r = Some \<lparr>details_source = info_field source ix,
      details_destination = info_field destination ix,
      amount = sol_amount (info_field lamports ix)\<rparr>"
    using r by (simp add: transfer_result_def Let_def)
  ultimately show ?thesis
    by (simp add: sol_amount_def)
qed

theorem missing_party_no_related_witness:
  "determineTransactionType
     (Some (tx_of [system_transfer_ix None (Some ''Q'') (Some 2500000000)] None)) ''Q''
   = Inr \<lparr>rtype = Transfer, relatedAddresses = [],
          details = Some \<lparr>details_source = None, details_destination = Some ''Q'',
                          amount = Some (5 / 2)\<rparr>\<rparr> \<and>
   find is_system_transfer [system_transfer_ix None (Some ''Q'') (Some 2500000000)]
     = Some (system_transfer_ix None (Some ''Q'') (Some 2500000000)) \<and>
   info_field source (system_transfer_ix None (Some ''Q'') (Some 2500000000)) = None \<and>
   info_field destination (system_transfer_ix None (Some ''Q'') (Some 2500000000))
     = Some ''Q'' \<and>
   info_field lamports (system_transfer_ix None (Some ''Q'') (Some 2500000000))
     = Some 2500000000 \<and>
   (2500000000::nat) \<noteq> 0 \<and>
   Some (real 2500000000 / 1000000000) = Some (5 / 2)"
  using missing_party_no_related [of
      "tx_of [system_transfer_ix None (Some ''Q'') (Some 2500000000)] None" "''Q''"
      "\<lparr>rtype = Transfer, relatedAddresses = [],
          details = Some \<lparr>details_source = None, details_destination = Some ''Q'',
                          amount = Some (5 / 2)\<rparr>\<rparr>"
      "\<lparr>message = Some \<lparr>instructions =
         Some [system_transfer_ix None (Some ''Q'') (Some 2500000000)]\<rparr>\<rparr>"
      "\<lparr>instructions = Some [system_transfer_ix None (Some ''Q'') (Some 2500000000)]\<rparr>"
      "[system_transfer_ix None (Some ''Q'') (Some 2500000000)]"
      "system_transfer_ix None (Some ''Q'') (Some 2500000000)"]
  by (simp add: eval_defs)

section \<open>The log fallback\<close>

text \<open>\<open>str_includes\<close> is the substring test, and every line of a joined
  text is a substring of it.\<close>

lemma starts_with_iff: "starts_with hay needle \<longleftrightarrow> (\<exists>s. hay = needle @ s)"
  by (induction hay needle rule: starts_with.induct) auto

lemma str_includes_iff: "str_includes hay needle \<longleftrightarrow> (\<exists>p s. hay = p @ needle @ s)"
proof (induction hay)
  case Nil
  show ?case by auto
next
  case (Cons h hs)
  show ?case
  proof
    assume "str_includes (h # hs) needle"
    then consider "starts_with (h # hs) needle" | "str_includes hs needle"
      by auto
    then show "\<exists>p s. h # hs = p @ needle @ s"
    proof cases
      case 1
      then obtain s where "h # hs = [] @ needle @ s"
        by (auto simp: starts_with_iff)
      then show ?thesis by blast
    next
      case 2
      with Cons.IH obtain p s where "hs = p @ needle @ s"
        by blast
      then have "h # hs = (h # p) @ needle @ s"
        by simp
      then show ?thesis by blast
    qed
  next
    assume "\<exists>p s. h # hs = p @ needle @ s"
    then obtain p s where eq: "h # hs = p @ needle @ s"
      by blast
    show "str_includes (h # hs) needle"
    proof (cases p)
      case Nil
      with eq have "starts_with (h # hs) needle"
        by (auto simp: starts_with_iff)
      then show ?thesis by simp
    next
      case (Cons a p')
      with eq have "hs = p' @ needle @ s"
        by simp
      with Cons.IH have "str_includes hs needle"
        by blast
      then show ?thesis by simp
    qed
  qed
qed

lemma join_has_line: "line \<in> set logs \<Longrightarrow> \<exists>p s. join logs sep = p @ line @ s"
proof (induction logs sep rule: join.induct)
  case (1 sep)
  then show ?case by simp
next
  case (2 x sep)
  then have "join [x] sep = [] @ line @ []"
    by simp
  then show ?case by blast
next
  case (3 x y ys sep)
  show ?case
  proof (cases "line = x")
    case True
    then have "join (x # y # ys) sep = [] @ line @ (sep @ join (y # ys) sep)"
      by simp
    then show ?thesis by blast
  next
    case False
    with 3 obtain p s where "join (y # ys) sep = p @ line @ s"
      by auto
    then have "join (x # y # ys) sep = (x @ sep @ p) @ line @ s"
      by simp
    then show ?thesis by blast
  qed
qed

lemma line_keyword_in_text:
  assumes "line \<in> set logs" and "str_includes (toLowerCase line) kw"
  shows "str_includes (toLowerCase (join logs sep)) kw"
proof -
  from assms(1) obtain p s where "join logs sep = p @ line @ s"
    using join_has_line by blast
  then have lowered: "toLowerCase (join logs sep) = toLowerCase p @ toLowerCase line @ toLowerCase s"
    by (simp add: toLowerCase_def)
  from assms(2) obtain p' s' where "toLowerCase line = p' @ kw @ s'"
    by (auto simp: str_includes_iff)
  with lowered have "toLowerCase (join logs sep) = (toLowerCase p @ p') @ kw @ (s' @ toLowerCase s)"
    by simp
  then show ?thesis
    unfolding str_includes_iff by blast
qed

text \<open>
  Claim C9. A transaction that the first three rules do not match is a swap
  when the concatenation of its log lines, in lower case, contains one of the
  five keywords, also across the boundary of two lines. Line 120 joins the
  lines with a space between them: the lines \<open>sw\<close> and \<open>ap\<close> become
  \<open>sw ap\<close>, which has no keyword, and the result is \<open>Unknown\<close>.
\<close>

theorem split_keyword_unmatched:
  "native_transfer (Some (logs_meta [''sw'', ''ap''])) [memo_ix] ''Q'' = None \<and>
   \<not> list_ex is_token_transfer [memo_ix] \<and>
   \<not> list_ex is_swap_program [memo_ix] \<and>
   str_includes (toLowerCase (concat [''sw'', ''ap''])) ''swap'' \<and>
   determineTransactionType
     (Some (tx_of [memo_ix] (Some (logs_meta [''sw'', ''ap''])))) ''Q''
   = Inr \<lparr>rtype = Unknown, relatedAddresses = [], details = None\<rparr>"
  by (simp add: eval_defs)

text \<open>
  Claim C9, amended. Such a transaction is a swap when its log lines, joined
  with one space between neighbours and put in lower case, contain one of the
  five keywords; so it is whenever one line contains a keyword, in any case
  of the letters.
\<close>

theorem log_rule:
  assumes "transaction t = Some body" and "message body = Some msg"
    and "instructions msg = Some ixs"
    and "native_transfer (meta t) ixs q = None"
    and "\<not> list_ex is_token_transfer ixs"
    and "\<not> list_ex is_swap_program ixs"
    and "meta t = Some m" and "logMessages m = Some logs"
    and "kw \<in> set swap_keywords"
    and "str_includes (toLowerCase (join logs '' '')) kw \<or>
         (\<exists>line \<in> set logs. str_includes (toLowerCase line) kw)"
  shows "determineTransactionType (Some t) q =
     Inr \<lparr>rtype = Swap, relatedAddresses = [], details = None\<rparr>"
proof -
  have "str_includes (toLowerCase (join logs '' '')) kw"
    using assms(10) line_keyword_in_text by blast
  with assms(9) have "list_ex (str_includes (toLowerCase (join logs '' ''))) swap_keywords"
    by (auto simp: list_ex_iff)
  then have "log_says_swap (meta t)"
    using assms(7,8) by (simp add: log_says_swap_def Let_def)
  then show ?thesis
    using assms(1-6)
    by (simp add: determine_classify classify_instructions_def typed_result_def
        default_result_def)
qed

theorem log_rule_witness:
  "native_transfer (Some (logs_meta [''Program log: Instruction: Swap'', ''ok'']))
     [memo_ix] ''Q'' = None \<and>
   \<not> list_ex is_token_transfer [memo_ix] \<and>
   \<not> list_ex is_swap_program [memo_ix] \<and>
   ''swap'' \<in> set swap_keywords \<and>
   str_includes (toLowerCase (join [''Program log: Instruction: Swap'', ''ok''] '' ''))
     ''swap'' \<and>
   determineTransactionType
     (Some (tx_of [memo_ix]
        (Some (logs_meta [''Program log: Instruction: Swap'', ''ok''])))) ''Q''
   = Inr \<lparr>rtype = Swap, relatedAddresses = [], details = None\<rparr>"
  using log_rule [of
      "tx_of [memo_ix] (Some (logs_meta [''Program log: Instruction: Swap'', ''ok'']))"
      "\<lparr>message = Some \<lparr>instructions = Some [memo_ix]\<rparr>\<rparr>"
      "\<lparr>instructions = Some [memo_ix]\<rparr>" "[memo_ix]" "''Q''"
      "logs_meta [''Program log: Instruction: Swap'', ''ok'']"
      "[''Program log: Instruction: Swap'', ''ok'']" "''swap''"]
  by (simp add: eval_defs)

section \<open>The whole run\<close>

text \<open>Folding the related addresses of one transaction after those of
  another is one fold over both lists.\<close>

lemma fold_related_append:
  "fold_related l (as @ bs) =
     (case fold_related l as of Inl e \<Rightarrow> Inl e | Inr l' \<Rightarrow> fold_related l' bs)"
  by (induction as arbitrary: l) (simp_all add: fold_pair_def)

text \<open>
  The map keeps the order in which the addresses were first seen: a fold
  sets the entry of the pair's address, which appends a new address at the
  end and leaves the keys as they are otherwise.
\<close>

theorem insertion_order_kept:
  "fold_pair l a =
     Inr (map_set l (address a) (bump (direction a) (get_or_zero l (address a)))) \<and>
   map fst (map_set l k v) = (if map_get l k = None then map fst l @ [k] else map fst l)"
proof
  show "fold_pair l a =
     Inr (map_set l (address a) (bump (direction a) (get_or_zero l (address a))))"
    by (simp add: fold_pair_def)
  show "map fst (map_set l k v) = (if map_get l k = None then map fst l @ [k] else map fst l)"
    by (induction l) (auto split: if_splits)
qed

text \<open>
  The counters of a run. A fold adds at most one to a counter, a transaction
  has at most one related address, and a run reads at most
  \<open>capped_limit providedLimit\<close> transactions: from the empty map no
  counter passes 1000, far below \<open>2\<^sup>5\<^sup>3\<close>.
\<close>

lemma fold_pair_below:
  assumes "counts_below b l" and "b < 9007199254740992" and "fold_pair l a = Inr l'"
  shows "counts_below (Suc b) l'"
proof -
  let ?c = "get_or_zero l (address a)"
  have "sent ?c \<le> b" and "received ?c \<le> b"
    using assms(1) get_or_zero_below by blast+
  then have "sent (bump (direction a) ?c) \<le> Suc b \<and> received (bump (direction a) ?c) \<le> Suc b"
    using assms(2) bump_below [of b ?c "direction a"] by simp
  moreover have "counts_below (Suc b) l"
    using assms(1) by (rule counts_below_mono) simp
  ultimately have "counts_below (Suc b) (map_set l (address a) (bump (direction a) ?c))"
    by (simp add: counts_below_map_set)
  then show ?thesis
    using assms(3) by (simp add: fold_pair_def)
qed

lemma fold_related_below:
  "counts_below b l \<Longrightarrow> b + length as \<le> 9007199254740992 \<Longrightarrow> fold_related l as = Inr l' \<Longrightarrow>
   counts_below (b + length as) l'"
proof (induction as arbitrary: b l)
  case Nil
  then show ?case by simp
next
  case (Cons a as)
  obtain l1 where step: "fold_pair l a = Inr l1"
    by (simp add: fold_pair_def)
  have "counts_below (Suc b) l1"
    using Cons.prems(1,2) step by (intro fold_pair_below [of b l a l1]) simp_all
  moreover have "Suc b + length as \<le> 9007199254740992"
    using Cons.prems(2) by simp
  moreover have "fold_related l1 as = Inr l'"
    using Cons.prems(3) step by simp
  ultimately have "counts_below (Suc b + length as) l'"
    by (rule Cons.IH)
  then show ?case by simp
qed

lemma related_at_most_one:
  assumes "determineTransactionType tx q = Inr r"
  shows "length (relatedAddresses r) \<le> 1"
proof (cases "\<exists>t body msg ixs. tx = Some t \<and> transaction t = Some body \<and>
    message body = Some msg \<and> instructions msg = Some ixs")
  case True
  then obtain t body msg ixs where "tx = Some t" "transaction t = Some body"
    "message body = Some msg" "instructions msg = Some ixs"
    by blast
  with assms have "classify_instructions (meta t) ixs q = Inr r"
    by (simp add: determineTransactionType_def)
  then show ?thesis
    using classify_related_shape [of "meta t" ixs q r] by (simp split: if_splits)
next
  case False
  with assms have "r = default_result"
    by (auto simp: determineTransactionType_def split: option.splits)
  then show ?thesis
    by (simp add: default_result_def)
qed

lemma process_transactions_below:
  "counts_below b l \<Longrightarrow> b + length txs \<le> 9007199254740992 \<Longrightarrow>
   process_transactions l txs q = Inr (types, l') \<Longrightarrow> counts_below (b + length txs) l'"
proof (induction l txs q arbitrary: b types l' rule: process_transactions.induct)
  case (1 l q)
  then show ?case by simp
next
  case (2 l rest q)
  then have "counts_below (b + length rest) l'"
    by simp
  then show ?case
    by (rule counts_below_mono) simp
next
  case (3 l t rest q)
  from "3.prems"(3) obtain txInfo l1 types1 where
    cls: "determineTransactionType (Some t) q = Inr txInfo"
    and fld: "fold_related l (relatedAddresses txInfo) = Inr l1"
    and rest: "process_transactions l1 rest q = Inr (types1, l')"
    by (auto split: sum.splits prod.splits)
  have one: "length (relatedAddresses txInfo) \<le> 1"
    using cls by (rule related_at_most_one)
  then have "b + length (relatedAddresses txInfo) \<le> 9007199254740992"
    using "3.prems"(2) by simp
  with "3.prems"(1) fld have below: "counts_below (b + length (relatedAddresses txInfo)) l1"
    by (intro fold_related_below) simp_all
  have l1: "counts_below (Suc b) l1"
    using counts_below_mono [OF below, of "Suc b"] one by simp
  have "Suc b + length rest \<le> 9007199254740992"
    using "3.prems"(2) by simp
  with l1 rest cls fld have "counts_below (Suc b + length rest) l'"
    by (intro "3.IH") simp_all
  then show ?case by simp
qed

theorem run_counts_bounded:
  assumes "process_transactions [] txs q = Inr (types, l)"
    and "length txs \<le> capped_limit providedLimit"
  shows "counts_below 1000 l"
proof -
  have len: "length txs \<le> 1000"
    using assms(2) by (simp add: capped_limit_def)
  have "counts_below 0 []"
    by (simp add: counts_below_def)
  moreover have "0 + length txs \<le> 9007199254740992"
    using len by simp
  ultimately have "counts_below (0 + length txs) l"
    using assms(1) by (intro process_transactions_below [of 0 "[]" txs q types l]) simp_all
  then show ?thesis
    using len by (intro counts_below_mono [of "0 + length txs" l 1000]) simp_all
qed

theorem run_counts_bounded_witness:
  "process_transactions []
     [Some (tx_of [system_transfer_ix (Some ''A'') (Some ''B'') (Some 5000000000)] None),
      Some (tx_of [system_transfer_ix (Some ''A'') (Some ''B'') (Some 2000000000)] None)] ''A''
   = Inr ([Transfer, Transfer], [(''B'', \<lparr>sent = 2, received = 0\<rparr>)]) \<and>
   length
     [Some (tx_of [system_transfer_ix (Some ''A'') (Some ''B'') (Some 5000000000)] None),
      Some (tx_of [system_transfer_ix (Some ''A'') (Some ''B'') (Some 2000000000)] None)]
   \<le> capped_limit 10 \<and>
   counts_below 1000 [(''B'', \<lparr>sent = 2, received = 0\<rparr>)]"
  using run_counts_bounded [of
      "[Some (tx_of [system_transfer_ix (Some ''A'') (Some ''B'') (Some 5000000000)] None),
        Some (tx_of [system_transfer_ix (Some ''A'') (Some ''B'') (Some 2000000000)] None)]"
      "''A''" "[Transfer, Transfer]" "[(''B'', \<lparr>sent = 2, received = 0\<rparr>)]" 10]
  by (simp add: eval_defs fold_pair_def bump_def increment_def get_or_zero_def
      capped_limit_def counts_below_def)

text \<open>
  The run of the specification's example, queried for \<open>A\<close>: a transfer
  of 5 SOL from \<open>A\<close> to \<open>B\<close>, a transfer of 2 SOL from \<open>C\<close> to
  \<open>A\<close>, and a call of a program of \<open>knownSwapPrograms\<close>. The types are
  transfer, transfer, swap, and the map counts one sent for \<open>B\<close> and one
  received for \<open>C\<close>.
\<close>

theorem end_to_end:
  "process_transactions []
     [Some (tx_of [system_transfer_ix (Some ''A'') (Some ''B'') (Some 5000000000)] None),
      Some (tx_of [system_transfer_ix (Some ''C'') (Some ''A'') (Some 2000000000)] None),
      Some (tx_of [jupiter_ix] None)] ''A''
   = Inr ([Transfer, Transfer, Swap],
          [(''B'', \<lparr>sent = 1, received = 0\<rparr>), (''C'', \<lparr>sent = 0, received = 1\<rparr>)])"
  by (simp add: eval_defs fold_pair_def bump_def increment_def get_or_zero_def)

end
